theory Spec2Isabelle
  imports Complex_Main "HOL-Library.Word"
begin

section \<open>The client page: \<^verbatim>\<open>src/app/page.tsx\<close>\<close>

subsection \<open>Constants and component state\<close>


definition API_BASE_URL :: string where
  "API_BASE_URL = ''http://127.0.0.1:8000''"

text \<open>The three \<^verbatim>\<open>useState\<close> cells of \<^verbatim>\<open>HomePage\<close>.\<close>

record page =
  selectedInstrument :: string
  isLoading :: bool
  error :: "string option"

definition initial_page :: page where
  "initial_page = \<lparr>selectedInstrument = ''lead'', isLoading = False, error = None\<rparr>"


definition onChange :: "string \<Rightarrow> page \<Rightarrow> page" where
  "onChange target_value st = st\<lparr>selectedInstrument := target_value\<rparr>"

text \<open>
  The boolean \<^verbatim>\<open>error && <p>Error: {error}</p>\<close>: nothing is rendered for
  \<^verbatim>\<open>null\<close> and for the empty string, otherwise a paragraph with this text.
\<close>

definition error_paragraph :: "page \<Rightarrow> string option" where
  "error_paragraph st =
     (case error st of
        None \<Rightarrow> None
      | Some e \<Rightarrow> if e = [] then None else Some (''Error: '' @ e))"

definition button_disabled :: "page \<Rightarrow> bool" where
  "button_disabled st = isLoading st"

definition button_label :: "page \<Rightarrow> string" where
  "button_label st = (if isLoading st then ''Generating...'' else ''Generate MIDI'')"

subsection \<open>What the browser hands to the handler\<close>

text \<open>
  An awaited promise is fulfilled with a value, rejected with an error, or never settles.
  Of a thrown error the handler reads only \<^verbatim>\<open>err.message\<close>, so a rejection carries
  that message (the empty string when the property is absent: both are falsy).
\<close>

datatype 'a settled = Fulfilled 'a | Rejected string | Pending

text \<open>
  The value \<^verbatim>\<open>response.json()\<close> parses. An object keeps its members in document
  order, duplicates included. Of a number the handler can only observe whether it is
  truthy (non-zero) and the text \<^verbatim>\<open>ToString\<close> gives, so \<open>JNum\<close> carries these two.
\<close>

datatype json =
    JNull
  | JBool bool
  | JNum bool string
  | JStr string
  | JArr "json list"
  | JObj "(string \<times> json) list"

type_synonym blob = "8 word list"

record response =
  status :: nat
  json_body :: "json settled"
  blob_body :: "blob settled"

text \<open>\<^verbatim>\<open>response.ok\<close> is true exactly for a status from 200 to 299.\<close>

definition ok :: "response \<Rightarrow> bool" where
  "ok r = (200 \<le> status r \<and> status r \<le> 299)"

text \<open>
  The engine words the messages of its own errors, differently from engine to engine:
  \<open>type_error_message\<close> is the message of the \<^verbatim>\<open>TypeError\<close> thrown when a property
  of \<^verbatim>\<open>null\<close> is read, \<open>convert_error_message\<close> that of the \<^verbatim>\<open>TypeError\<close> thrown
  when an object cannot be converted to a primitive value.
\<close>

record env =
  fetch_result :: "response settled"
  type_error_message :: string
  convert_error_message :: string

subsection \<open>JavaScript operators the handler uses\<close>

definition digit_char :: "nat \<Rightarrow> char" where
  "digit_char d = ''0123456789'' ! d"

function show_nat :: "nat \<Rightarrow> string" where
  "show_nat n =
     (if n < 10 then [digit_char n] else show_nat (n div 10) @ [digit_char (n mod 10)])"
  by pat_completeness auto
termination
  by (relation "measure (\<lambda>n. n)") auto

declare show_nat.simps [simp del]

text \<open>The operand test of \<^verbatim>\<open>||\<close> and \<^verbatim>\<open>&&\<close>.\<close>

fun truthy :: "json \<Rightarrow> bool" where
  "truthy JNull = False"
| "truthy (JBool b) = b"
| "truthy (JNum nonzero _) = nonzero"
| "truthy (JStr s) = (s \<noteq> [])"
| "truthy (JArr _) = True"
| "truthy (JObj _) = True"

fun join_comma :: "string list \<Rightarrow> string" where
  "join_comma [] = []"
| "join_comma [s] = s"
| "join_comma (s # t # ss) = s @ '','' @ join_comma (t # ss)"

text \<open>
  \<^verbatim>\<open>ToString\<close>, which \<^verbatim>\<open>new Error(message)\<close> applies to its argument; \<open>None\<close> is
  the \<^verbatim>\<open>TypeError\<close> of a failed conversion. An array is joined with commas,
  \<^verbatim>\<open>null\<close> elements giving the empty string and the other elements converted in
  turn. A parsed object has its members as own properties: without a member
  \<^verbatim>\<open>toString\<close> it inherits \<^verbatim>\<open>Object.prototype.toString\<close>; with one, that member is
  not callable, and neither an own nor the inherited \<^verbatim>\<open>valueOf\<close> yields a primitive, so
  the conversion throws.
\<close>

fun ToString :: "json \<Rightarrow> string option" where
  "ToString JNull = Some ''null''"
| "ToString (JBool b) = Some (if b then ''true'' else ''false'')"
| "ToString (JNum _ text) = Some text"
| "ToString (JStr s) = Some s"
| "ToString (JArr xs) =
     map_option join_comma (those (map (\<lambda>x. if x = JNull then Some [] else ToString x) xs))"
| "ToString (JObj members) =
     (if ''toString'' \<in> set (map fst members) then None else Some ''[object Object]'')"

text \<open>
  \<^verbatim>\<open>errorData.detail\<close>: \<open>Inl ()\<close> is the \<^verbatim>\<open>TypeError\<close> for \<^verbatim>\<open>null\<close>, \<open>Inr None\<close>
  is \<^verbatim>\<open>undefined\<close>. Of duplicate members the last one is the property's value.
\<close>

fun read_detail :: "json \<Rightarrow> unit + json option" where
  "read_detail JNull = Inl ()"
| "read_detail (JObj members) = Inr (map_of (rev members) ''detail'')"
| "read_detail _ = Inr None"

text \<open>
  The message of the error thrown for a response that is not ok:
  \<^verbatim>\<open>errorData.detail || `HTTP error! Status: ${response.status}`\<close>, through
  \<^verbatim>\<open>new Error\<close>; when the conversion inside \<^verbatim>\<open>new Error\<close> throws, the error thrown
  is the engine's.
\<close>

definition thrown_message :: "env \<Rightarrow> json option \<Rightarrow> nat \<Rightarrow> string" where
  "thrown_message e detail st =
     (case detail of
        Some d \<Rightarrow>
          if truthy d then
            (case ToString d of Some text \<Rightarrow> text | None \<Rightarrow> convert_error_message e)
          else ''HTTP error! Status: '' @ show_nat st
      | None \<Rightarrow> ''HTTP error! Status: '' @ show_nat st)"

subsection \<open>The handler\<close>

definition request_url :: "string \<Rightarrow> string" where
  "request_url inst = API_BASE_URL @ ''/generate-midi?instrument='' @ inst"

definition download_name :: "string \<Rightarrow> string" where
  "download_name inst = inst @ ''_pattern.mid''"

text \<open>
  What the page does to the outside: the URLs it fetched, the errors passed to
  \<^verbatim>\<open>console.error\<close> (by message), and the files the clicked anchor saved, each as
  the anchor's \<^verbatim>\<open>download\<close> name with the blob behind its \<^verbatim>\<open>href\<close>.
\<close>

record effects =
  requests :: "string list"
  console :: "string list"
  downloads :: "(string \<times> blob) list"

text \<open>
  The body of the \<^verbatim>\<open>try\<close> block, for the instrument the handler's closure holds:
  the file to save, the message of the error thrown, or \<open>Pending\<close> when an awaited
  promise never settles.
\<close>

definition try_block :: "env \<Rightarrow> string \<Rightarrow> (string \<times> blob) settled" where
  "try_block e inst =
     (case fetch_result e of
        Pending \<Rightarrow> Pending
      | Rejected msg \<Rightarrow> Rejected msg
      | Fulfilled r \<Rightarrow>
          if \<not> ok r then
            (case json_body r of
               Pending \<Rightarrow> Pending
             | Rejected msg \<Rightarrow> Rejected msg
             | Fulfilled errorData \<Rightarrow>
                 (case read_detail errorData of
                    Inl _ \<Rightarrow> Rejected (type_error_message e)
                  | Inr detail \<Rightarrow> Rejected (thrown_message e detail (status r))))
          else
            (case blob_body r of
               Pending \<Rightarrow> Pending
             | Rejected msg \<Rightarrow> Rejected msg
             | Fulfilled midiBlob \<Rightarrow> Fulfilled (download_name inst, midiBlob)))"

text \<open>The \<^verbatim>\<open>catch\<close> clause: \<^verbatim>\<open>setError(err.message || "An unknown error occurred.")\<close>.\<close>

definition catch_block :: "string \<Rightarrow> page \<Rightarrow> page" where
  "catch_block msg st =
     st\<lparr>error := Some (if msg \<noteq> [] then msg else ''An unknown error occurred.'')\<rparr>"

text \<open>
  A run of the handler either finishes, or stays suspended at an \<^verbatim>\<open>await\<close> for ever;
  both carry the component state and the effects reached.
\<close>

datatype run = Finished page effects | Suspended page effects

definition handleGenerateMidi :: "env \<Rightarrow> page \<Rightarrow> run" where
  "handleGenerateMidi e st =
     (let started = st\<lparr>isLoading := True, error := None\<rparr>;
          inst = selectedInstrument st;
          sent = \<lparr>requests = [request_url inst], console = [], downloads = []\<rparr>
      in case try_block e inst of
           Pending \<Rightarrow> Suspended started sent
         | Rejected msg \<Rightarrow>
             Finished ((catch_block msg started)\<lparr>isLoading := False\<rparr>)
                      (sent\<lparr>console := [msg]\<rparr>)
         | Fulfilled file \<Rightarrow>
             Finished (started\<lparr>isLoading := False\<rparr>) (sent\<lparr>downloads := [file]\<rparr>))"

text \<open>
  The request went through: the response is ok and its body was read, so no error was
  thrown.
\<close>

definition request_succeeded :: "env \<Rightarrow> bool" where
  "request_succeeded e =
     (case fetch_result e of
        Fulfilled r \<Rightarrow> ok r \<and> (case blob_body r of Fulfilled _ \<Rightarrow> True | _ \<Rightarrow> False)
      | _ \<Rightarrow> False)"

text \<open>
  Every promise the handler awaits settles: the \<^verbatim>\<open>fetch\<close>, then
  \<^verbatim>\<open>response.json()\<close> for a response that is not ok and \<^verbatim>\<open>response.blob()\<close> for one
  that is.
\<close>

definition awaits_settle :: "env \<Rightarrow> bool" where
  "awaits_settle e =
     (case fetch_result e of
        Pending \<Rightarrow> False
      | Rejected _ \<Rightarrow> True
      | Fulfilled r \<Rightarrow> if \<not> ok r then json_body r \<noteq> Pending else blob_body r \<noteq> Pending)"

section \<open>The endpoint as the specification advertises it\<close>


section \<open>Properties of the client page\<close>


text \<open>
  C2. On a successful response (the response is ok and its body is read as a blob) the
  handler finishes having saved exactly one file, named after the selected instrument
  followed by \<^verbatim>\<open>_pattern.mid\<close>, whatever the selected instrument is.
\<close>

theorem handler_saves_pattern_file:
  assumes "fetch_result e = Fulfilled r" and "ok r" and "blob_body r = Fulfilled midiBlob"
  shows "handleGenerateMidi e st =
           Finished (st\<lparr>isLoading := False, error := None\<rparr>)
             \<lparr>requests = [request_url (selectedInstrument st)], console = [],
              downloads = [(selectedInstrument st @ ''_pattern.mid'', midiBlob)]\<rparr>"
  using assms by (simp add: handleGenerateMidi_def Let_def try_block_def download_name_def)

theorem handler_saves_pattern_file_witness:
  "handleGenerateMidi
     \<lparr>fetch_result =
        Fulfilled \<lparr>status = 200, json_body = Pending, blob_body = Fulfilled [77, 84, 104, 100]\<rparr>,
      type_error_message = [], convert_error_message = []\<rparr>
     (onChange ''kick'' initial_page) =
   Finished \<lparr>selectedInstrument = ''kick'', isLoading = False, error = None\<rparr>
     \<lparr>requests = [''http://127.0.0.1:8000/generate-midi?instrument=kick''], console = [],
      downloads = [(''kick_pattern.mid'', [77, 84, 104, 100])]\<rparr>"
  using handler_saves_pattern_file
    [of "\<lparr>fetch_result =
            Fulfilled \<lparr>status = 200, json_body = Pending,
                       blob_body = Fulfilled [77, 84, 104, 100]\<rparr>,
          type_error_message = [], convert_error_message = []\<rparr>"
        "\<lparr>status = 200, json_body = Pending, blob_body = Fulfilled [77, 84, 104, 100]\<rparr>"
        "[77, 84, 104, 100]" "onChange ''kick'' initial_page"]
  by (simp add: ok_def onChange_def initial_page_def request_url_def API_BASE_URL_def)

text \<open>
  C3, as stated, fails. For the failure response 500 with body \<^verbatim>\<open>{"detail": ""}\<close> the
  \<^verbatim>\<open>detail\<close> field is a string, yet the message set and shown is the status
  fall-back of the \<^verbatim>\<open>||\<close>, not the \<^verbatim>\<open>detail\<close> string.
\<close>

theorem empty_detail_not_shown:
  "map_of (rev [(''detail'', JStr [])]) ''detail'' = Some (JStr [])
   \<and> \<not> ok \<lparr>status = 500, json_body = Fulfilled (JObj [(''detail'', JStr [])]),
             blob_body = Pending\<rparr>
   \<and> handleGenerateMidi
       \<lparr>fetch_result =
          Fulfilled \<lparr>status = 500, json_body = Fulfilled (JObj [(''detail'', JStr [])]),
                     blob_body = Pending\<rparr>,
        type_error_message = [], convert_error_message = []\<rparr>
       initial_page =
     Finished
       \<lparr>selectedInstrument = ''lead'', isLoading = False,
        error = Some ''HTTP error! Status: 500''\<rparr>
       \<lparr>requests = [''http://127.0.0.1:8000/generate-midi?instrument=lead''],
        console = [''HTTP error! Status: 500''], downloads = []\<rparr>
   \<and> error_paragraph
       \<lparr>selectedInstrument = ''lead'', isLoading = False,
        error = Some ''HTTP error! Status: 500''\<rparr> =
     Some ''Error: HTTP error! Status: 500''"
  by (simp add: ok_def handleGenerateMidi_def Let_def try_block_def thrown_message_def
      catch_block_def initial_page_def request_url_def API_BASE_URL_def error_paragraph_def
      show_nat.simps digit_char_def)

text \<open>
  C3, amended. For a response that is not ok and whose JSON body is an object with a
  non-empty string as its \<^verbatim>\<open>detail\<close>, the handler finishes with that string, unchanged,
  as the error message, and the page shows it after \<^verbatim>\<open>Error: \<close>.
\<close>

theorem nonempty_detail_shown_verbatim:
  assumes "fetch_result e = Fulfilled r" and "\<not> ok r"
    and "json_body r = Fulfilled (JObj members)"
    and "map_of (rev members) ''detail'' = Some (JStr d)"
    and "d \<noteq> []"
  shows "handleGenerateMidi e st =
           Finished (st\<lparr>isLoading := False, error := Some d\<rparr>)
             \<lparr>requests = [request_url (selectedInstrument st)], console = [d],
              downloads = []\<rparr>
         \<and> error_paragraph (st\<lparr>isLoading := False, error := Some d\<rparr>) = Some (''Error: '' @ d)"
  using assms
  by (simp add: handleGenerateMidi_def Let_def try_block_def thrown_message_def
      catch_block_def error_paragraph_def)

theorem nonempty_detail_shown_verbatim_witness:
  "handleGenerateMidi
     \<lparr>fetch_result =
        Fulfilled \<lparr>status = 400,
                   json_body = Fulfilled (JObj [(''detail'', JStr ''Invalid instrument'')]),
                   blob_body = Pending\<rparr>,
      type_error_message = [], convert_error_message = []\<rparr>
     initial_page =
   Finished
     \<lparr>selectedInstrument = ''lead'', isLoading = False, error = Some ''Invalid instrument''\<rparr>
     \<lparr>requests = [''http://127.0.0.1:8000/generate-midi?instrument=lead''],
      console = [''Invalid instrument''], downloads = []\<rparr>
   \<and> error_paragraph
       \<lparr>selectedInstrument = ''lead'', isLoading = False, error = Some ''Invalid instrument''\<rparr> =
     Some ''Error: Invalid instrument''"
  using nonempty_detail_shown_verbatim
    [of "\<lparr>fetch_result =
            Fulfilled \<lparr>status = 400,
                       json_body = Fulfilled (JObj [(''detail'', JStr ''Invalid instrument'')]),
                       blob_body = Pending\<rparr>,
          type_error_message = [], convert_error_message = []\<rparr>"
        "\<lparr>status = 400,
          json_body = Fulfilled (JObj [(''detail'', JStr ''Invalid instrument'')]),
          blob_body = Pending\<rparr>"
        "[(''detail'', JStr ''Invalid instrument'')]" "''Invalid instrument''" initial_page]
  by (simp add: ok_def initial_page_def request_url_def API_BASE_URL_def)

text \<open>
  C10. A run of the handler finishes exactly when the promises it awaits settle, be it
  on the success path, after an error response or after a thrown error; and every run
  that finishes leaves \<^verbatim>\<open>isLoading\<close> false, with \<^verbatim>\<open>error\<close> being \<^verbatim>\<open>null\<close> if the
  request succeeded and set otherwise.
\<close>

theorem finished_run_not_loading:
  "((\<exists>st' fx. handleGenerateMidi e st = Finished st' fx) \<longleftrightarrow> awaits_settle e)
   \<and> (\<forall>st' fx. handleGenerateMidi e st = Finished st' fx \<longrightarrow>
         \<not> isLoading st'
         \<and> (request_succeeded e \<longrightarrow> error st' = None)
         \<and> (\<not> request_succeeded e \<longrightarrow> error st' \<noteq> None))"
  by (auto simp: handleGenerateMidi_def Let_def request_succeeded_def try_block_def
      awaits_settle_def catch_block_def split: settled.splits sum.splits if_splits)

theorem finished_run_not_loading_witness:
  "handleGenerateMidi
     \<lparr>fetch_result =
        Fulfilled \<lparr>status = 200, json_body = Pending, blob_body = Fulfilled []\<rparr>,
      type_error_message = [], convert_error_message = []\<rparr>
     \<lparr>selectedInstrument = ''pad'', isLoading = False, error = Some ''old''\<rparr> =
   Finished \<lparr>selectedInstrument = ''pad'', isLoading = False, error = None\<rparr>
     \<lparr>requests = [request_url ''pad''], console = [],
      downloads = [(download_name ''pad'', [])]\<rparr>
   \<and> handleGenerateMidi
       \<lparr>fetch_result =
          Fulfilled \<lparr>status = 404,
                     json_body = Fulfilled (JObj [(''detail'', JStr ''Not Found'')]),
                     blob_body = Pending\<rparr>,
        type_error_message = [], convert_error_message = []\<rparr>
       \<lparr>selectedInstrument = ''pad'', isLoading = False, error = None\<rparr> =
     Finished \<lparr>selectedInstrument = ''pad'', isLoading = False, error = Some ''Not Found''\<rparr>
       \<lparr>requests = [request_url ''pad''], console = [''Not Found''], downloads = []\<rparr>
   \<and> handleGenerateMidi
       \<lparr>fetch_result = Rejected ''Failed to fetch'',
        type_error_message = [], convert_error_message = []\<rparr>
       \<lparr>selectedInstrument = ''pad'', isLoading = False, error = None\<rparr> =
     Finished
       \<lparr>selectedInstrument = ''pad'', isLoading = False, error = Some ''Failed to fetch''\<rparr>
       \<lparr>requests = [request_url ''pad''], console = [''Failed to fetch''], downloads = []\<rparr>
   \<and> awaits_settle
       \<lparr>fetch_result =
          Fulfilled \<lparr>status = 404,
                     json_body = Fulfilled (JObj [(''detail'', JStr ''Not Found'')]),
                     blob_body = Pending\<rparr>,
        type_error_message = [], convert_error_message = []\<rparr>
   \<and> awaits_settle
       \<lparr>fetch_result = Rejected ''Failed to fetch'',
        type_error_message = [], convert_error_message = []\<rparr>
   \<and> \<not> isLoading \<lparr>selectedInstrument = ''pad'', isLoading = False, error = Some ''Not Found''\<rparr>
   \<and> \<not> isLoading
         \<lparr>selectedInstrument = ''pad'', isLoading = False, error = Some ''Failed to fetch''\<rparr>
   \<and> error \<lparr>selectedInstrument = ''pad'', isLoading = False, error = None\<rparr> = None"
  (is "?ok_run \<and> ?err_run \<and> ?thrown_run \<and> ?err_settles \<and> ?thrown_settles
       \<and> ?err_idle \<and> ?thrown_idle \<and> ?ok_clear")
proof -
  have ok_run: ?ok_run
    by (simp add: handleGenerateMidi_def Let_def try_block_def ok_def)
  have err_run: ?err_run
    by (simp add: handleGenerateMidi_def Let_def try_block_def ok_def thrown_message_def
        catch_block_def)
  have thrown_run: ?thrown_run
    by (simp add: handleGenerateMidi_def Let_def try_block_def catch_block_def)
  have succeeded:
    "request_succeeded
       \<lparr>fetch_result =
          Fulfilled \<lparr>status = 200, json_body = Pending, blob_body = Fulfilled []\<rparr>,
        type_error_message = [], convert_error_message = []\<rparr>"
    by (simp add: request_succeeded_def ok_def)
  from finished_run_not_loading
    [of "\<lparr>fetch_result =
            Fulfilled \<lparr>status = 200, json_body = Pending, blob_body = Fulfilled []\<rparr>,
          type_error_message = [], convert_error_message = []\<rparr>"
        "\<lparr>selectedInstrument = ''pad'', isLoading = False, error = Some ''old''\<rparr>"]
    ok_run succeeded
  have ok_clear: ?ok_clear by blast
  from finished_run_not_loading
    [of "\<lparr>fetch_result =
            Fulfilled \<lparr>status = 404,
                       json_body = Fulfilled (JObj [(''detail'', JStr ''Not Found'')]),
                       blob_body = Pending\<rparr>,
          type_error_message = [], convert_error_message = []\<rparr>"
        "\<lparr>selectedInstrument = ''pad'', isLoading = False, error = None\<rparr>"]
    err_run
  have err: "?err_settles \<and> ?err_idle" by blast
  from finished_run_not_loading
    [of "\<lparr>fetch_result = Rejected ''Failed to fetch'',
          type_error_message = [], convert_error_message = []\<rparr>"
        "\<lparr>selectedInstrument = ''pad'', isLoading = False, error = None\<rparr>"]
    thrown_run
  have thrown: "?thrown_settles \<and> ?thrown_idle" by blast
  from ok_run err_run thrown_run ok_clear err thrown show ?thesis by blast
qed

end
